theory Spec2Isabelle
  imports Main
begin

section \<open>Data model\<close>

text \<open>
  The module \<open>nomad_material_processing\<close> declares NOMAD sections. Two of its methods
  carry behaviour: \<open>ThinFilmStack.normalize\<close>, which derives the flat component list of
  a stack, and \<open>SampleDeposition.is_serial\<close> / \<open>SampleDeposition.normalize\<close>, which
  decide whether the steps of a deposition follow one another in time and, if so,
  publish a chain of workflow tasks.
\<close>

subsection \<open>Steps, links and tasks\<close>

text \<open>
  A step as the deposition reads it: \<open>step.name\<close>, \<open>step.start_time\<close> and
  \<open>step.duration\<close>, the last two \<open>None\<close> when unset. \<open>start_time\<close> holds the value
  of \<open>step.start_time.timestamp()\<close> and \<open>duration\<close> the value of
  \<open>step.duration.to('s').magnitude\<close>, both in seconds. The number type \<open>'t\<close> is left
  open: the code only adds, subtracts and compares with zero, and the model uses
  nothing else, so no law of arithmetic is assumed that Python floats lack.
  Concrete step classes extend the record (the \<open>more\<close> field of the scheme).
\<close>

record 't step =
  name :: string
  start_time :: "'t option"
  duration :: "'t option"

text \<open>
  \<open>Link(name=..., section=...)\<close> of \<open>nomad.datamodel.metainfo.workflow\<close>; the field
  \<open>section\<close> is \<open>link_section\<close> here, \<open>section\<close> being a keyword of Isabelle.
\<close>

record ('t, 'z) link =
  link_name :: string
  link_section :: "('t, 'z) step_scheme"

text \<open>
  A workflow task, of which the code touches \<open>task.inputs\<close> and \<open>task.outputs\<close>;
  whatever else a task holds is the \<open>more\<close> field of the scheme.
\<close>

record ('t, 'z) task =
  inputs :: "('t, 'z) link list"
  outputs :: "('t, 'z) link list"

record ('t, 'z) sample_deposition =
  steps :: "('t, 'z) step_scheme list"

text \<open>\<open>archive.workflow2\<close> and its \<open>tasks\<close>.\<close>

record ('t, 'z, 'm) workflow =
  tasks :: "('t, 'z, 'm) task_scheme list"

record ('t, 'z, 'm) archive =
  workflow2 :: "('t, 'z, 'm) workflow"

subsection \<open>Thin film stacks\<close>

text \<open>
  \<open>ThinFilmReference\<close> and \<open>SubstrateReference\<close> both derive from
  \<open>CompositeSystemReference\<close> and declare the same two quantities, \<open>lab_id\<close> and
  \<open>reference\<close>; \<open>'sys\<close> is the type of the systems referred to.
\<close>

record 'sys composite_system_reference =
  lab_id :: "string option"
  reference :: "'sys option"

type_synonym 'sys thin_film_reference = "'sys composite_system_reference"
type_synonym 'sys substrate_reference = "'sys composite_system_reference"

text \<open>\<open>SystemComponent(system=...)\<close>.\<close>

record 'sys system_component =
  system :: 'sys

text \<open>
  \<open>layers\<close> is a repeating sub-section (a list, empty when nothing was added);
  \<open>substrate\<close> is a single sub-section, \<open>None\<close> until one is added.
\<close>

record 'sys thin_film_stack =
  components :: "'sys system_component list"
  layers :: "'sys thin_film_reference list"
  substrate :: "'sys substrate_reference option"

datatype exn = AttributeError

text \<open>
  How a method that mutates its object ends: it returns, or it raises and leaves the
  object as it was at the raise.
\<close>

datatype 'a outcome = Returned (final: 'a) | Raised exn (final: 'a)

section \<open>\<open>ThinFilmStack.normalize\<close>\<close>

text \<open>
  The inherited normalizer \<open>super().normalize(archive, logger)\<close> is library code; it is
  the parameter \<open>super_normalize\<close>, a transformer of the stack and the archive.
  \<open>if self.layers\<close> tests the list for being non-empty; \<open>if layer.reference\<close> and
  \<open>if self.substrate.reference\<close> test the reference for being set.
  \<open>self.substrate.reference\<close> on a stack without substrate sub-section reads an
  attribute of \<open>None\<close>, which raises \<open>AttributeError\<close>; \<open>components\<close> has been assigned
  by then and the inherited normalizer is not reached.
\<close>

definition ThinFilmStack_normalize ::
  "(('sys, 'x) thin_film_stack_scheme \<times> 'a \<Rightarrow> ('sys, 'x) thin_film_stack_scheme \<times> 'a) \<Rightarrow>
   ('sys, 'x) thin_film_stack_scheme \<times> 'a \<Rightarrow>
   (('sys, 'x) thin_film_stack_scheme \<times> 'a) outcome" where
  "ThinFilmStack_normalize super_normalize st =
     (let (self, archive) = st;
          self = self\<lparr>components := []\<rparr>;
          self = (if layers self \<noteq> []
                  then self\<lparr>components :=
                         [\<lparr>system = the (reference layer)\<rparr>.
                            layer \<leftarrow> layers self, reference layer \<noteq> None]\<rparr>
                  else self)
      in case substrate self of
           None \<Rightarrow> Raised AttributeError (self, archive)
         | Some sub \<Rightarrow>
             (let self = (if reference sub \<noteq> None
                          then self\<lparr>components :=
                                 components self @ [\<lparr>system = the (reference sub)\<rparr>]\<rparr>
                          else self)
              in Returned (super_normalize (self, archive))))"

section \<open>\<open>SampleDeposition.is_serial\<close>\<close>

text \<open>
  The loop over \<open>self.steps\<close> with its two accumulators; \<open>None\<close> is the early
  \<open>return False\<close>.
\<close>

fun is_serial_loop ::
  "('t, 'z) step_scheme list \<Rightarrow> 't list \<Rightarrow> 't list \<Rightarrow> ('t list \<times> 't list) option" where
  "is_serial_loop [] start_times durations = Some (start_times, durations)"
| "is_serial_loop (step # rest) start_times durations =
     (if start_time step = None \<or> duration step = None then None
      else is_serial_loop rest (start_times @ [the (start_time step)])
                               (durations @ [the (duration step)]))"

text \<open>
  The array part: \<open>end_times = start_times + durations\<close> elementwise,
  \<open>start_times[1:]\<close> is \<open>tl\<close>, \<open>end_times[:-1]\<close> is \<open>butlast\<close> (both empty on an
  empty array), and \<open>np.any(diffs < 0)\<close> is \<open>list_ex\<close>.
\<close>

definition is_serial :: "('t::{plus,minus,zero,ord}, 'z) sample_deposition \<Rightarrow> bool" where
  "is_serial self =
     (case is_serial_loop (steps self) [] [] of
        None \<Rightarrow> False
      | Some (start_times, durations) \<Rightarrow>
          (let end_times = map2 (+) start_times durations;
               diffs = map2 (-) (tl start_times) (butlast end_times)
           in if list_ex (\<lambda>d. d < 0) diffs then False else True))"

section \<open>\<open>SampleDeposition.normalize\<close>\<close>

text \<open>
  The loop that builds the local list \<open>tasks\<close> (here \<open>tasks'\<close>, \<open>tasks\<close> being the field
  of the workflow), with \<open>previous\<close>.
  \<open>step.to_task()\<close> is a method of the step's class, declared outside this module:
  it is the parameter \<open>to_task\<close>.
\<close>

fun normalize_loop ::
  "(('t, 'z) step_scheme \<Rightarrow> ('t, 'z, 'm) task_scheme) \<Rightarrow> ('t, 'z) step_scheme list \<Rightarrow>
   ('t, 'z) step_scheme option \<Rightarrow> ('t, 'z, 'm) task_scheme list \<Rightarrow>
   ('t, 'z, 'm) task_scheme list" where
  "normalize_loop to_task [] previous tasks' = tasks'"
| "normalize_loop to_task (step # rest) previous tasks' =
     (let task = to_task step;
          task = task\<lparr>outputs := outputs task @ [\<lparr>link_name = name step, link_section = step\<rparr>]\<rparr>;
          task = (case previous of
                    None \<Rightarrow> task
                  | Some p \<Rightarrow>
                      task\<lparr>inputs := inputs task @ [\<lparr>link_name = name p, link_section = p\<rparr>]\<rparr>)
      in normalize_loop to_task rest (Some step) (tasks' @ [task]))"

text \<open>
  The inherited normalizer runs first and is the parameter \<open>super_normalize\<close>; the
  steps that \<open>is_serial\<close> and the loop read are the ones it leaves. The section
  \<open>archive.workflow2\<close> is taken to exist when \<open>tasks\<close> is assigned.
\<close>

definition SampleDeposition_normalize ::
  "(('t, 'z) sample_deposition \<times> ('t, 'z, 'm) archive \<Rightarrow>
      ('t, 'z) sample_deposition \<times> ('t, 'z, 'm) archive) \<Rightarrow>
   (('t, 'z) step_scheme \<Rightarrow> ('t, 'z, 'm) task_scheme) \<Rightarrow>
   ('t::{plus,minus,zero,ord}, 'z) sample_deposition \<times> ('t, 'z, 'm) archive \<Rightarrow>
   ('t, 'z) sample_deposition \<times> ('t, 'z, 'm) archive" where
  "SampleDeposition_normalize super_normalize to_task st =
     (let (self, archive) = super_normalize st
      in if is_serial self
         then (self, archive\<lparr>workflow2 :=
                  (workflow2 archive)\<lparr>tasks := normalize_loop to_task (steps self) None []\<rparr>\<rparr>)
         else (self, archive))"

section \<open>Quantities and example data used in the statements\<close>

text \<open>
  The gap between step \<open>i\<close> and step \<open>i + 1\<close> in the words of the specification:
  \<open>start_time[i+1] - (start_time[i] + duration[i])\<close>. It is compared below with the
  \<open>diffs\<close> array that \<open>is_serial\<close> computes.
\<close>

definition spec_gap :: "('t::{plus,minus}, 'z) step_scheme list \<Rightarrow> nat \<Rightarrow> 't" where
  "spec_gap xs i =
     the (start_time (xs ! Suc i)) - (the (start_time (xs ! i)) + the (duration (xs ! i)))"

text \<open>
  Two instances of \<open>to_task\<close>. The first returns a task without links, as
  \<open>Task(name=self.name)\<close> does. The second stands for a step class whose task already
  lists the step among its outputs:
  \<open>Task(name=self.name, outputs=[Link(name=self.name, section=self)])\<close>.
\<close>

definition to_task_plain :: "('t, 'z) step_scheme \<Rightarrow> ('t, 'z) task" where
  "to_task_plain step = \<lparr>inputs = [], outputs = []\<rparr>"

definition to_task_with_output :: "('t, 'z) step_scheme \<Rightarrow> ('t, 'z) task" where
  "to_task_with_output step =
     \<lparr>inputs = [], outputs = [\<lparr>link_name = name step, link_section = step\<rparr>]\<rparr>"

text \<open>Steps with times in whole seconds, for the concrete runs.\<close>

abbreviation step_A :: "int step" where
  "step_A \<equiv> \<lparr>name = ''A'', start_time = Some 0, duration = Some 10\<rparr>"

abbreviation step_B :: "int step" where
  "step_B \<equiv> \<lparr>name = ''B'', start_time = Some 10, duration = Some 5\<rparr>"

abbreviation step_C :: "int step" where
  "step_C \<equiv> \<lparr>name = ''C'', start_time = Some 15, duration = Some 0\<rparr>"

abbreviation step_B_early :: "int step" where
  "step_B_early \<equiv> \<lparr>name = ''B'', start_time = Some 5, duration = Some 5\<rparr>"

abbreviation step_B_unset :: "int step" where
  "step_B_unset \<equiv> \<lparr>name = ''B'', start_time = None, duration = Some 5\<rparr>"

abbreviation step_A_backwards :: "int step" where
  "step_A_backwards \<equiv> \<lparr>name = ''A'', start_time = Some 10, duration = Some (- 5)\<rparr>"

abbreviation stale_task :: "(int, unit) task" where
  "stale_task \<equiv> \<lparr>inputs = [], outputs = [\<lparr>link_name = ''old'', link_section = step_C\<rparr>]\<rparr>"



text \<open>
  An instance of the inherited normalizer of a deposition. Like the normalizer of
  NOMAD's activities it assigns \<open>archive.workflow2.tasks\<close> the tasks of the steps,
  \<open>[step.to_task() for step in self.steps]\<close>, over whatever the list held, and leaves
  the steps alone.
\<close>

definition super_normalize_publishing ::
  "(('t, 'z) step_scheme \<Rightarrow> ('t, 'z, 'm) task_scheme) \<Rightarrow>
   ('t, 'z) sample_deposition \<times> ('t, 'z, 'm) archive \<Rightarrow>
   ('t, 'z) sample_deposition \<times> ('t, 'z, 'm) archive" where
  "super_normalize_publishing to_task st =
     (let (self, archive) = st
      in (self, archive\<lparr>workflow2 :=
                  (workflow2 archive)\<lparr>tasks := map to_task (steps self)\<rparr>\<rparr>))"

section \<open>The temporal-ordering check\<close>

subsection \<open>What the loop and the array expressions compute\<close>

lemma is_serial_loop_missing:
  "\<exists>s\<in>set xs. start_time s = None \<or> duration s = None \<Longrightarrow>
   is_serial_loop xs st du = None"
  by (induction xs arbitrary: st du) auto

lemma is_serial_loop_complete:
  "\<forall>s\<in>set xs. start_time s \<noteq> None \<and> duration s \<noteq> None \<Longrightarrow>
   is_serial_loop xs st du =
     Some (st @ map (\<lambda>s. the (start_time s)) xs, du @ map (\<lambda>s. the (duration s)) xs)"
  by (induction xs arbitrary: st du) auto

lemma diffs_nth:
  assumes "Suc i < length xs"
  shows "map2 (-) (tl (map f xs)) (butlast (map2 (+) (map f xs) (map g xs))) ! i
         = f (xs ! Suc i) - (f (xs ! i) + g (xs ! i))"
  using assms by (simp add: nth_tl nth_butlast)

lemma diffs_length:
  "length (map2 (-) (tl (map f xs)) (butlast (map2 (+) (map f xs) (map g xs))))
   = length xs - 1"
  by simp

lemma list_ex_diffs:
  "list_ex P (map2 (-) (tl (map f xs)) (butlast (map2 (+) (map f xs) (map g xs))))
   \<longleftrightarrow> (\<exists>i. Suc i < length xs \<and> P (f (xs ! Suc i) - (f (xs ! i) + g (xs ! i))))"
proof -
  let ?d = "map2 (-) (tl (map f xs)) (butlast (map2 (+) (map f xs) (map g xs)))"
  have "list_ex P ?d \<longleftrightarrow> (\<exists>i<length ?d. P (?d ! i))"
    by (simp only: list_ex_length)
  also have "\<dots> \<longleftrightarrow> (\<exists>i. Suc i < length xs \<and> P (?d ! i))"
    by (simp only: diffs_length) (metis less_diff_conv Suc_eq_plus1)
  also have "\<dots> \<longleftrightarrow> (\<exists>i. Suc i < length xs \<and> P (f (xs ! Suc i) - (f (xs ! i) + g (xs ! i))))"
    using diffs_nth [of _ xs f g] by metis
  finally show ?thesis .
qed

text \<open>
  With complete timing, \<open>is_serial\<close> is true exactly when no computed gap is below
  zero. This holds for any addition, subtraction and comparison.
\<close>

lemma is_serial_complete:
  assumes "\<forall>s\<in>set (steps self). start_time s \<noteq> None \<and> duration s \<noteq> None"
  shows "is_serial self \<longleftrightarrow>
           \<not> (\<exists>i. Suc i < length (steps self) \<and> spec_gap (steps self) i < 0)"
  unfolding is_serial_def is_serial_loop_complete [OF assms] spec_gap_def
  by (simp add: list_ex_diffs)

subsection \<open>Overlap\<close>

text \<open>
  C1. When every step has both \<open>start_time\<close> and \<open>duration\<close>, \<open>is_serial\<close> returns
  false if and only if some adjacent pair \<open>(i, i + 1)\<close> has
  \<open>start_time[i+1] - (start_time[i] + duration[i]) < 0\<close>; and when every adjacent gap is
  at least zero, a gap of exactly zero included, it returns true. The second part uses
  that \<open>0 \<le> d\<close> excludes \<open>d < 0\<close>, which is all that is asked of the order.
\<close>

theorem is_serial_false_iff_overlap:
  fixes self :: "('t::{plus,minus,zero,preorder}, 'z) sample_deposition"
  assumes "\<forall>s\<in>set (steps self). start_time s \<noteq> None \<and> duration s \<noteq> None"
  shows "(is_serial self = False \<longleftrightarrow>
           (\<exists>i. Suc i < length (steps self) \<and> spec_gap (steps self) i < 0))
       \<and> ((\<forall>i. Suc i < length (steps self) \<longrightarrow> 0 \<le> spec_gap (steps self) i) \<longrightarrow>
           is_serial self = True)"
proof (intro conjI impI)
  show "is_serial self = False \<longleftrightarrow>
          (\<exists>i. Suc i < length (steps self) \<and> spec_gap (steps self) i < 0)"
    using is_serial_complete [OF assms] by simp
next
  assume nonneg: "\<forall>i. Suc i < length (steps self) \<longrightarrow> 0 \<le> spec_gap (steps self) i"
  have "\<not> (\<exists>i. Suc i < length (steps self) \<and> spec_gap (steps self) i < 0)"
  proof
    assume "\<exists>i. Suc i < length (steps self) \<and> spec_gap (steps self) i < 0"
    then obtain i where i: "Suc i < length (steps self)"
      and neg: "spec_gap (steps self) i < 0"
      by blast
    from nonneg i have "0 \<le> spec_gap (steps self) i" by blast
    with neg show False by (simp add: less_le_not_le)
  qed
  then show "is_serial self = True"
    using is_serial_complete [OF assms] by simp
qed

text \<open>
  The two timed scenarios of the specification: \<open>B\<close> starting at 5 s while \<open>A\<close> runs
  until 10 s is an overlap; \<open>A\<close>, \<open>B\<close>, \<open>C\<close> back to back (gaps of exactly zero) are
  serial.
\<close>

theorem is_serial_false_iff_overlap_witness:
  "list_all (\<lambda>s. start_time s \<noteq> None \<and> duration s \<noteq> None) [step_A, step_B_early]
   \<and> spec_gap [step_A, step_B_early] 0 < 0
   \<and> is_serial \<lparr>steps = [step_A, step_B_early]\<rparr> = False
   \<and> list_all (\<lambda>s. start_time s \<noteq> None \<and> duration s \<noteq> None) [step_A, step_B, step_C]
   \<and> 0 \<le> spec_gap [step_A, step_B, step_C] 0
   \<and> 0 \<le> spec_gap [step_A, step_B, step_C] 1
   \<and> is_serial \<lparr>steps = [step_A, step_B, step_C]\<rparr> = True"
  using is_serial_false_iff_overlap [of "\<lparr>steps = [step_A, step_B_early]\<rparr>"]
        is_serial_false_iff_overlap [of "\<lparr>steps = [step_A, step_B, step_C]\<rparr>"]
  by (simp add: spec_gap_def nth_Cons' less_Suc_eq)

text \<open>
  C9. Durations are never checked for sign: when every step has both times and every
  adjacent gap is at least zero, \<open>is_serial\<close> returns true. Nothing is assumed about
  the durations themselves, so a step may end before it starts.
\<close>

theorem is_serial_negative_duration:
  fixes self :: "('t::{plus,minus,zero,preorder}, 'z) sample_deposition"
  assumes "\<forall>s\<in>set (steps self). start_time s \<noteq> None \<and> duration s \<noteq> None"
    and "\<forall>i. Suc i < length (steps self) \<longrightarrow> 0 \<le> spec_gap (steps self) i"
  shows "is_serial self = True"
proof -
  have "\<not> spec_gap (steps self) i < 0" if "Suc i < length (steps self)" for i
    using assms(2) that by (simp add: less_le_not_le)
  then show ?thesis
    using is_serial_complete [OF assms(1)] by blast
qed

text \<open>
  \<open>A\<close> starts at 10 s with a duration of -5 s, so it ends at 5 s, where \<open>B\<close> starts.
\<close>

theorem is_serial_negative_duration_witness:
  "list_all (\<lambda>s. start_time s \<noteq> None \<and> duration s \<noteq> None)
      [step_A_backwards, step_B_early]
   \<and> 0 \<le> spec_gap [step_A_backwards, step_B_early] 0
   \<and> the (duration step_A_backwards) < 0
   \<and> is_serial \<lparr>steps = [step_A_backwards, step_B_early]\<rparr> = True"
  using is_serial_negative_duration [of "\<lparr>steps = [step_A_backwards, step_B_early]\<rparr>"]
  by (simp add: spec_gap_def)

subsection \<open>Missing timing\<close>

text \<open>
  C2. When at least one step lacks \<open>start_time\<close> or \<open>duration\<close>, \<open>is_serial\<close> returns
  false whatever the other steps hold; it returns a value, the loop leaving at the
  first such step.
\<close>

theorem is_serial_missing_timing:
  "\<exists>s\<in>set (steps self). start_time s = None \<or> duration s = None \<Longrightarrow>
   is_serial self = False"
  by (simp add: is_serial_def is_serial_loop_missing)

theorem is_serial_missing_timing_witness:
  "(\<exists>s\<in>set (steps \<lparr>steps = [step_A, step_B_unset]\<rparr>).
       start_time s = None \<or> duration s = None)
   \<and> is_serial \<lparr>steps = [step_A, step_B_unset]\<rparr> = False"
  using is_serial_missing_timing [of "\<lparr>steps = [step_A, step_B_unset]\<rparr>"]
  by simp

subsection \<open>Zero or one step\<close>

text \<open>
  C6. \<open>is_serial\<close> returns true on the empty step sequence and on every sequence of one
  step that has both \<open>start_time\<close> and \<open>duration\<close>; a single step that lacks one of
  them still makes it false.
\<close>

theorem is_serial_empty_or_single:
  fixes s :: "('t::{plus,minus,zero,ord}, 'z) step_scheme"
  shows "is_serial (\<lparr>steps = []\<rparr> :: ('t, 'z) sample_deposition)
       \<and> (start_time s \<noteq> None \<and> duration s \<noteq> None \<longrightarrow> is_serial \<lparr>steps = [s]\<rparr>)
       \<and> (start_time s = None \<or> duration s = None \<longrightarrow> \<not> is_serial \<lparr>steps = [s]\<rparr>)"
  by (auto simp: is_serial_def)

theorem is_serial_empty_or_single_witness:
  "is_serial (\<lparr>steps = []\<rparr> :: (int, unit) sample_deposition)
   \<and> start_time step_A_backwards \<noteq> None \<and> duration step_A_backwards \<noteq> None
   \<and> is_serial \<lparr>steps = [step_A_backwards]\<rparr>
   \<and> start_time step_B_unset = None
   \<and> \<not> is_serial \<lparr>steps = [step_B_unset]\<rparr>"
  using is_serial_empty_or_single [of step_A_backwards]
        is_serial_empty_or_single [of step_B_unset]
  by simp

section \<open>Flattening a thin film stack\<close>






text \<open>
  C4. The claim is that for every stack the method sets \<open>components\<close> to the targets of
  the set layer references in layer order, then the substrate reference if present,
  and that an empty layer list with an absent base gives an empty list and no error.
  On a stack that has no substrate sub-section the method does not return:
  \<open>self.substrate\<close> is \<open>None\<close> and \<open>self.substrate.reference\<close> raises
  \<open>AttributeError\<close>, after \<open>components\<close> was set from the layers and before the
  inherited normalizer runs. The layers are guarded by \<open>if self.layers\<close>; the
  substrate is not.
\<close>

theorem ThinFilmStack_normalize_raises:
  "ThinFilmStack_normalize super (\<lparr>components = cs, layers = [], substrate = None\<rparr>, a)
   = Raised AttributeError (\<lparr>components = [], layers = [], substrate = None\<rparr>, a)"
  by (simp add: ThinFilmStack_normalize_def)



section \<open>Publishing the task chain\<close>

subsection \<open>The loop\<close>

lemma normalize_loop_length:
  "length (normalize_loop tt xs prev acc) = length acc + length xs"
  by (induction xs arbitrary: prev acc) (simp_all add: Let_def)

lemma normalize_loop_prefix:
  "i < length acc \<Longrightarrow> normalize_loop tt xs prev acc ! i = acc ! i"
  by (induction xs arbitrary: prev acc) (simp_all add: Let_def nth_append)

text \<open>
  The task built for the step at position \<open>i\<close>: what \<open>to_task\<close> returned, with one link
  to the step appended to its outputs and, unless there is no previous step, one link
  to the previous step appended to its inputs.
\<close>

lemma normalize_loop_nth:
  "i < length xs \<Longrightarrow>
   outputs (normalize_loop tt xs prev acc ! (length acc + i))
     = outputs (tt (xs ! i)) @ [\<lparr>link_name = name (xs ! i), link_section = xs ! i\<rparr>]
   \<and> inputs (normalize_loop tt xs prev acc ! (length acc + i))
     = inputs (tt (xs ! i)) @
       (case (if i = 0 then prev else Some (xs ! (i - 1))) of
          None \<Rightarrow> []
        | Some p \<Rightarrow> [\<lparr>link_name = name p, link_section = p\<rparr>])
   \<and> task.more (normalize_loop tt xs prev acc ! (length acc + i)) = task.more (tt (xs ! i))"
proof (induction xs arbitrary: prev acc i)
  case Nil
  then show ?case by simp
next
  case (Cons x xs)
  show ?case
  proof (cases i)
    case 0
    then show ?thesis
      by (simp add: Let_def normalize_loop_prefix split: option.splits)
  next
    case (Suc j)
    with Cons.prems have j: "j < length xs" by simp
    let ?out = "(tt x)\<lparr>outputs := outputs (tt x) @ [\<lparr>link_name = name x, link_section = x\<rparr>]\<rparr>"
    let ?task = "(case prev of
                    None \<Rightarrow> ?out
                  | Some p \<Rightarrow>
                      ?out\<lparr>inputs := inputs ?out @ [\<lparr>link_name = name p, link_section = p\<rparr>]\<rparr>)"
    have unfold: "normalize_loop tt (x # xs) prev acc
                  = normalize_loop tt xs (Some x) (acc @ [?task])"
      by (simp add: Let_def)
    have idx: "length acc + i = length (acc @ [?task]) + j"
      using Suc by simp
    show ?thesis
      unfolding unfold idx
      using Cons.IH [OF j, of "Some x" "acc @ [?task]"] Suc
      by (cases j) simp_all
  qed
qed

subsection \<open>The two branches of the method\<close>

lemma SampleDeposition_normalize_serial:
  "super st = (self, a) \<Longrightarrow> is_serial self \<Longrightarrow>
   SampleDeposition_normalize super tt st =
     (self, a\<lparr>workflow2 := (workflow2 a)\<lparr>tasks := normalize_loop tt (steps self) None []\<rparr>\<rparr>)"
  by (simp add: SampleDeposition_normalize_def)

lemma SampleDeposition_normalize_not_serial:
  "super st = (self, a) \<Longrightarrow> \<not> is_serial self \<Longrightarrow>
   SampleDeposition_normalize super tt st = (self, a)"
  by (simp add: SampleDeposition_normalize_def)

lemma is_serial_A_B_C: "is_serial \<lparr>steps = [step_A, step_B, step_C]\<rparr>"
  by (simp add: is_serial_def)

lemma is_serial_A_B: "is_serial \<lparr>steps = [step_A, step_B]\<rparr>"
  by (simp add: is_serial_def)

lemma not_is_serial_A_B_early: "\<not> is_serial \<lparr>steps = [step_A, step_B_early]\<rparr>"
  by (simp add: is_serial_def)

text \<open>
  C5, as written, says that a false \<open>is_serial\<close> leaves the task list of the workflow
  unchanged and that no tasks are built. The method calls the inherited normalizer
  before it asks \<open>is_serial\<close>, and that call is not gated. With an inherited normalizer
  that publishes the plain tasks of the steps, a run on the overlapping steps \<open>A\<close>,
  \<open>B\<close> and an archive holding one stale task ends with two freshly built tasks in
  the list and the stale task gone.
\<close>

theorem SampleDeposition_normalize_not_serial_counterexample:
  "\<not> is_serial \<lparr>steps = [step_A, step_B_early]\<rparr>
   \<and> tasks (workflow2 (snd (SampleDeposition_normalize
         (super_normalize_publishing to_task_plain) to_task_plain
         (\<lparr>steps = [step_A, step_B_early]\<rparr>, \<lparr>workflow2 = \<lparr>tasks = [stale_task]\<rparr>\<rparr>))))
     = [\<lparr>inputs = [], outputs = []\<rparr>, \<lparr>inputs = [], outputs = []\<rparr>]
   \<and> tasks (workflow2 (snd (SampleDeposition_normalize
         (super_normalize_publishing to_task_plain) to_task_plain
         (\<lparr>steps = [step_A, step_B_early]\<rparr>, \<lparr>workflow2 = \<lparr>tasks = [stale_task]\<rparr>\<rparr>))))
     \<noteq> tasks (workflow2 \<lparr>workflow2 = \<lparr>tasks = [stale_task]\<rparr>\<rparr>)"
  by (simp add: SampleDeposition_normalize_def super_normalize_publishing_def
        not_is_serial_A_B_early to_task_plain_def)

text \<open>
  C5, amended. The inherited normalizer runs first, whatever \<open>is_serial\<close> will say; let
  it leave the deposition \<open>self\<close> and the archive \<open>a\<close>. If \<open>is_serial\<close> is true of
  \<open>self\<close>, \<open>archive.workflow2.tasks\<close> is assigned the list the loop builds from the
  steps, in one full replacement: the list has one task per step, and the outcome is
  the same whatever list \<open>old\<close> the inherited normalizer had left there. If
  \<open>is_serial\<close> is false, the method adds nothing of its own: deposition and archive,
  and with them the task list, stay exactly as the inherited normalizer left them.
\<close>

theorem SampleDeposition_normalize_publishes:
  assumes "super st = (self, a)"
  shows "(is_serial self \<longrightarrow>
            SampleDeposition_normalize super tt st =
              (self, a\<lparr>workflow2 :=
                        (workflow2 a)\<lparr>tasks := normalize_loop tt (steps self) None []\<rparr>\<rparr>)
          \<and> length (tasks (workflow2 (snd (SampleDeposition_normalize super tt st))))
              = length (steps self)
          \<and> SampleDeposition_normalize
                (\<lambda>_. (self, a\<lparr>workflow2 := (workflow2 a)\<lparr>tasks := old\<rparr>\<rparr>)) tt st
              = SampleDeposition_normalize super tt st)
       \<and> (\<not> is_serial self \<longrightarrow>
            SampleDeposition_normalize super tt st = super st
          \<and> tasks (workflow2 (snd (SampleDeposition_normalize super tt st)))
              = tasks (workflow2 a))"
proof (intro conjI impI)
  assume serial: "is_serial self"
  show run: "SampleDeposition_normalize super tt st =
          (self, a\<lparr>workflow2 :=
                    (workflow2 a)\<lparr>tasks := normalize_loop tt (steps self) None []\<rparr>\<rparr>)"
    using assms serial by (rule SampleDeposition_normalize_serial)
  show "length (tasks (workflow2 (snd (SampleDeposition_normalize super tt st))))
        = length (steps self)"
    by (simp add: run normalize_loop_length)
  have "SampleDeposition_normalize
          (\<lambda>_. (self, a\<lparr>workflow2 := (workflow2 a)\<lparr>tasks := old\<rparr>\<rparr>)) tt st
        = (self, a\<lparr>workflow2 := (workflow2 a)\<lparr>tasks := old\<rparr>\<rparr>
                   \<lparr>workflow2 :=
                      (workflow2 (a\<lparr>workflow2 := (workflow2 a)\<lparr>tasks := old\<rparr>\<rparr>))
                        \<lparr>tasks := normalize_loop tt (steps self) None []\<rparr>\<rparr>)"
    using serial by (intro SampleDeposition_normalize_serial) simp_all
  then show "SampleDeposition_normalize
               (\<lambda>_. (self, a\<lparr>workflow2 := (workflow2 a)\<lparr>tasks := old\<rparr>\<rparr>)) tt st
             = SampleDeposition_normalize super tt st"
    by (simp add: run)
next
  assume not_serial: "\<not> is_serial self"
  have run: "SampleDeposition_normalize super tt st = (self, a)"
    using assms not_serial by (rule SampleDeposition_normalize_not_serial)
  show "SampleDeposition_normalize super tt st = super st"
    by (simp add: run assms)
  show "tasks (workflow2 (snd (SampleDeposition_normalize super tt st)))
        = tasks (workflow2 a)"
    by (simp add: run)
qed

text \<open>
  Both runs start from an archive holding a stale task, with the inherited normalizer
  that publishes the plain tasks of the steps. On the serial steps \<open>A\<close>, \<open>B\<close> the
  list ends as the linked chain; on the overlapping steps it ends as the inherited
  normalizer left it.
\<close>

theorem SampleDeposition_normalize_publishes_witness:
  "super_normalize_publishing to_task_plain
        (\<lparr>steps = [step_A, step_B]\<rparr>, \<lparr>workflow2 = \<lparr>tasks = [stale_task]\<rparr>\<rparr>)
     = (\<lparr>steps = [step_A, step_B]\<rparr>,
        \<lparr>workflow2 = \<lparr>tasks = [\<lparr>inputs = [], outputs = []\<rparr>, \<lparr>inputs = [], outputs = []\<rparr>]\<rparr>\<rparr>)
   \<and> is_serial \<lparr>steps = [step_A, step_B]\<rparr>
   \<and> SampleDeposition_normalize (super_normalize_publishing to_task_plain) to_task_plain
        (\<lparr>steps = [step_A, step_B]\<rparr>, \<lparr>workflow2 = \<lparr>tasks = [stale_task]\<rparr>\<rparr>)
     = (\<lparr>steps = [step_A, step_B]\<rparr>,
        \<lparr>workflow2 = \<lparr>tasks =
           [\<lparr>inputs = [], outputs = [\<lparr>link_name = ''A'', link_section = step_A\<rparr>]\<rparr>,
            \<lparr>inputs = [\<lparr>link_name = ''A'', link_section = step_A\<rparr>],
             outputs = [\<lparr>link_name = ''B'', link_section = step_B\<rparr>]\<rparr>]\<rparr>\<rparr>)
   \<and> super_normalize_publishing to_task_plain
        (\<lparr>steps = [step_A, step_B_early]\<rparr>, \<lparr>workflow2 = \<lparr>tasks = [stale_task]\<rparr>\<rparr>)
     = (\<lparr>steps = [step_A, step_B_early]\<rparr>,
        \<lparr>workflow2 = \<lparr>tasks = [\<lparr>inputs = [], outputs = []\<rparr>, \<lparr>inputs = [], outputs = []\<rparr>]\<rparr>\<rparr>)
   \<and> \<not> is_serial \<lparr>steps = [step_A, step_B_early]\<rparr>
   \<and> SampleDeposition_normalize (super_normalize_publishing to_task_plain) to_task_plain
        (\<lparr>steps = [step_A, step_B_early]\<rparr>, \<lparr>workflow2 = \<lparr>tasks = [stale_task]\<rparr>\<rparr>)
     = (\<lparr>steps = [step_A, step_B_early]\<rparr>,
        \<lparr>workflow2 = \<lparr>tasks = [\<lparr>inputs = [], outputs = []\<rparr>, \<lparr>inputs = [], outputs = []\<rparr>]\<rparr>\<rparr>)"
  using SampleDeposition_normalize_publishes
          [of "super_normalize_publishing to_task_plain"
              "(\<lparr>steps = [step_A, step_B]\<rparr>, \<lparr>workflow2 = \<lparr>tasks = [stale_task]\<rparr>\<rparr>)"
              "\<lparr>steps = [step_A, step_B]\<rparr>"
              "\<lparr>workflow2 = \<lparr>tasks = [\<lparr>inputs = [], outputs = []\<rparr>,
                                      \<lparr>inputs = [], outputs = []\<rparr>]\<rparr>\<rparr>"
              to_task_plain]
        SampleDeposition_normalize_publishes
          [of "super_normalize_publishing to_task_plain"
              "(\<lparr>steps = [step_A, step_B_early]\<rparr>, \<lparr>workflow2 = \<lparr>tasks = [stale_task]\<rparr>\<rparr>)"
              "\<lparr>steps = [step_A, step_B_early]\<rparr>"
              "\<lparr>workflow2 = \<lparr>tasks = [\<lparr>inputs = [], outputs = []\<rparr>,
                                      \<lparr>inputs = [], outputs = []\<rparr>]\<rparr>\<rparr>"
              to_task_plain]
  by (simp add: super_normalize_publishing_def is_serial_A_B not_is_serial_A_B_early
        to_task_plain_def)

text \<open>
  C10. With no steps (after the inherited normalizer) the method still publishes:
  \<open>is_serial\<close> is true, the loop builds the empty list, and
  \<open>archive.workflow2.tasks\<close> becomes the empty list, whatever it held.
\<close>

theorem SampleDeposition_normalize_no_steps:
  assumes "super st = (self, a)" and "steps self = []"
  shows "is_serial self
       \<and> normalize_loop tt (steps self) None [] = []
       \<and> tasks (workflow2 (snd (SampleDeposition_normalize super tt st))) = []"
proof -
  have serial: "is_serial self"
    using assms(2) by (simp add: is_serial_def)
  then show ?thesis
    using assms by (simp add: SampleDeposition_normalize_def)
qed

theorem SampleDeposition_normalize_no_steps_witness:
  "steps (\<lparr>steps = []\<rparr> :: (int, unit) sample_deposition) = []
   \<and> tasks (workflow2 \<lparr>workflow2 = \<lparr>tasks = [stale_task]\<rparr>\<rparr>) = [stale_task]
   \<and> is_serial (\<lparr>steps = []\<rparr> :: (int, unit) sample_deposition)
   \<and> tasks (workflow2 (snd (SampleDeposition_normalize (\<lambda>st. st) to_task_plain
        (\<lparr>steps = []\<rparr>, \<lparr>workflow2 = \<lparr>tasks = [stale_task]\<rparr>\<rparr>)))) = []"
  using SampleDeposition_normalize_no_steps
          [of "\<lambda>st. st" "(\<lparr>steps = []\<rparr>, \<lparr>workflow2 = \<lparr>tasks = [stale_task]\<rparr>\<rparr>)"
              "\<lparr>steps = []\<rparr>" "\<lparr>workflow2 = \<lparr>tasks = [stale_task]\<rparr>\<rparr>" to_task_plain]
  by simp

subsection \<open>The shape of the chain\<close>

text \<open>
  C3, as written, says that every task has exactly one output link and every task after
  the first exactly one input link. The loop appends its links to the lists that
  \<open>to_task\<close> returned, so a step whose task comes with links ends up with more. Here
  the task of \<open>A\<close> already lists \<open>A\<close> among its outputs; the published task has two
  output links, both named \<open>A\<close> and both targeting \<open>A\<close>.
\<close>

theorem SampleDeposition_normalize_prepopulated_counterexample:
  "is_serial \<lparr>steps = [step_A, step_B]\<rparr>
   \<and> outputs (tasks (workflow2 (snd (SampleDeposition_normalize id to_task_with_output
         (\<lparr>steps = [step_A, step_B]\<rparr>, \<lparr>workflow2 = \<lparr>tasks = []\<rparr>\<rparr>)))) ! 0)
     = [\<lparr>link_name = ''A'', link_section = step_A\<rparr>,
        \<lparr>link_name = ''A'', link_section = step_A\<rparr>]
   \<and> length (outputs (tasks (workflow2 (snd (SampleDeposition_normalize id to_task_with_output
         (\<lparr>steps = [step_A, step_B]\<rparr>, \<lparr>workflow2 = \<lparr>tasks = []\<rparr>\<rparr>)))) ! 0)) \<noteq> 1"
  by (simp add: SampleDeposition_normalize_def is_serial_def to_task_with_output_def)

text \<open>
  C3, amended. For every serial step sequence the published list \<open>ts\<close> has one task per
  step, in step order. Task \<open>i\<close> is the task \<open>to_task\<close> returned for step \<open>i\<close> with
  exactly one link appended to its outputs, named after step \<open>i\<close> and targeting step
  \<open>i\<close>, and, for \<open>i > 0\<close>, exactly one link appended to its inputs, named after step
  \<open>i - 1\<close> and targeting step \<open>i - 1\<close>; task 0 gets no input link. When \<open>to_task\<close>
  returns tasks without links, every task therefore has exactly one output link, every
  task after the first exactly one input link, and task 0 none.
\<close>

theorem SampleDeposition_normalize_chain:
  assumes "super st = (self, a)" and "is_serial self"
    and "ts = tasks (workflow2 (snd (SampleDeposition_normalize super tt st)))"
  shows "length ts = length (steps self)
       \<and> (\<forall>i<length (steps self).
            outputs (ts ! i) = outputs (tt (steps self ! i))
                @ [\<lparr>link_name = name (steps self ! i), link_section = steps self ! i\<rparr>]
          \<and> inputs (ts ! i) = inputs (tt (steps self ! i))
                @ (if i = 0 then []
                   else [\<lparr>link_name = name (steps self ! (i - 1)),
                          link_section = steps self ! (i - 1)\<rparr>])
          \<and> task.more (ts ! i) = task.more (tt (steps self ! i)))
       \<and> ((\<forall>s\<in>set (steps self). inputs (tt s) = [] \<and> outputs (tt s) = []) \<longrightarrow>
          (\<forall>i<length (steps self).
            outputs (ts ! i)
              = [\<lparr>link_name = name (steps self ! i), link_section = steps self ! i\<rparr>]
          \<and> inputs (ts ! i)
              = (if i = 0 then []
                 else [\<lparr>link_name = name (steps self ! (i - 1)),
                        link_section = steps self ! (i - 1)\<rparr>])))"
proof -
  have ts: "ts = normalize_loop tt (steps self) None []"
    using assms by (simp add: SampleDeposition_normalize_serial)
  have len: "length ts = length (steps self)"
    by (simp add: ts normalize_loop_length)
  have nth: "outputs (ts ! i) = outputs (tt (steps self ! i))
                @ [\<lparr>link_name = name (steps self ! i), link_section = steps self ! i\<rparr>]
          \<and> inputs (ts ! i) = inputs (tt (steps self ! i))
                @ (if i = 0 then []
                   else [\<lparr>link_name = name (steps self ! (i - 1)),
                          link_section = steps self ! (i - 1)\<rparr>])
          \<and> task.more (ts ! i) = task.more (tt (steps self ! i))"
    if "i < length (steps self)" for i
    using normalize_loop_nth [OF that, of tt None "[]"] by (simp add: ts)
  have plain: "outputs (ts ! i)
              = [\<lparr>link_name = name (steps self ! i), link_section = steps self ! i\<rparr>]
          \<and> inputs (ts ! i)
              = (if i = 0 then []
                 else [\<lparr>link_name = name (steps self ! (i - 1)),
                        link_section = steps self ! (i - 1)\<rparr>])"
    if "i < length (steps self)"
      and "\<forall>s\<in>set (steps self). inputs (tt s) = [] \<and> outputs (tt s) = []" for i
  proof -
    have "inputs (tt (steps self ! i)) = []" "outputs (tt (steps self ! i)) = []"
      using that by simp_all
    then show ?thesis using nth [OF that(1)] by simp
  qed
  show ?thesis
    using len nth plain by blast
qed

text \<open>
  The scenario of the specification: \<open>A\<close>, \<open>B\<close>, \<open>C\<close> give three tasks, and the task
  of \<open>B\<close> has the input link \<open>A\<close> and the output link \<open>B\<close>.
\<close>

theorem SampleDeposition_normalize_chain_witness:
  "is_serial \<lparr>steps = [step_A, step_B, step_C]\<rparr>
   \<and> list_all (\<lambda>s. inputs (to_task_plain s) = [] \<and> outputs (to_task_plain s) = [])
        [step_A, step_B, step_C]
   \<and> length (tasks (workflow2 (snd (SampleDeposition_normalize (\<lambda>st. st) to_task_plain
         (\<lparr>steps = [step_A, step_B, step_C]\<rparr>, \<lparr>workflow2 = \<lparr>tasks = []\<rparr>\<rparr>))))) = 3
   \<and> tasks (workflow2 (snd (SampleDeposition_normalize (\<lambda>st. st) to_task_plain
         (\<lparr>steps = [step_A, step_B, step_C]\<rparr>, \<lparr>workflow2 = \<lparr>tasks = []\<rparr>\<rparr>)))) ! 1
     = \<lparr>inputs = [\<lparr>link_name = ''A'', link_section = step_A\<rparr>],
        outputs = [\<lparr>link_name = ''B'', link_section = step_B\<rparr>]\<rparr>"
  using SampleDeposition_normalize_chain
          [of "\<lambda>st. st"
              "(\<lparr>steps = [step_A, step_B, step_C]\<rparr>, \<lparr>workflow2 = \<lparr>tasks = []\<rparr>\<rparr>)"
              "\<lparr>steps = [step_A, step_B, step_C]\<rparr>" "\<lparr>workflow2 = \<lparr>tasks = []\<rparr>\<rparr>"
              _ to_task_plain, OF refl is_serial_A_B_C refl]
  by (simp add: SampleDeposition_normalize_def is_serial_def to_task_plain_def)

subsection \<open>Determinism\<close>

text \<open>
  C8. Two runs on the same serial step sequence publish chains with the same links,
  names and targets alike. The runs may start from different archives, and the tasks
  \<open>to_task\<close> returns in the two runs need only agree in their own links, as the tasks
  of an unchanged step do.
\<close>

theorem SampleDeposition_normalize_deterministic:
  assumes "super1 st1 = (self1, a1)" and "super2 st2 = (self2, a2)"
    and "steps self2 = steps self1" and "is_serial self1"
    and "\<forall>s\<in>set (steps self1).
           inputs (tt2 s) = inputs (tt1 s) \<and> outputs (tt2 s) = outputs (tt1 s)"
  shows "map inputs (tasks (workflow2 (snd (SampleDeposition_normalize super2 tt2 st2))))
         = map inputs (tasks (workflow2 (snd (SampleDeposition_normalize super1 tt1 st1))))
       \<and> map outputs (tasks (workflow2 (snd (SampleDeposition_normalize super2 tt2 st2))))
         = map outputs (tasks (workflow2 (snd (SampleDeposition_normalize super1 tt1 st1))))"
proof -
  let ?xs = "steps self1"
  have "self2 = self1" using assms(3) by simp
  then have serial2: "is_serial self2" using assms(4) by simp
  have r1: "tasks (workflow2 (snd (SampleDeposition_normalize super1 tt1 st1)))
            = normalize_loop tt1 ?xs None []"
    using assms(1,4) by (simp add: SampleDeposition_normalize_serial)
  have r2: "tasks (workflow2 (snd (SampleDeposition_normalize super2 tt2 st2)))
            = normalize_loop tt2 ?xs None []"
    using assms(2,3) serial2 by (simp add: SampleDeposition_normalize_serial)
  have same: "inputs (normalize_loop tt2 ?xs None [] ! i)
                = inputs (normalize_loop tt1 ?xs None [] ! i)
            \<and> outputs (normalize_loop tt2 ?xs None [] ! i)
                = outputs (normalize_loop tt1 ?xs None [] ! i)"
    if "i < length ?xs" for i
  proof -
    have "inputs (tt2 (?xs ! i)) = inputs (tt1 (?xs ! i))"
      "outputs (tt2 (?xs ! i)) = outputs (tt1 (?xs ! i))"
      using assms(5) that by simp_all
    then show ?thesis
      using normalize_loop_nth [OF that, of tt1 None "[]"]
        normalize_loop_nth [OF that, of tt2 None "[]"]
      by simp
  qed
  have "map inputs (normalize_loop tt2 ?xs None [])
        = map inputs (normalize_loop tt1 ?xs None [])"
    by (rule nth_equalityI) (simp_all add: normalize_loop_length same)
  moreover have "map outputs (normalize_loop tt2 ?xs None [])
        = map outputs (normalize_loop tt1 ?xs None [])"
    by (rule nth_equalityI) (simp_all add: normalize_loop_length same)
  ultimately show ?thesis by (simp only: r1 r2)
qed

text \<open>
  The first run uses tasks without further content and an empty archive; the second
  uses tasks that carry the step's name and an archive that holds a stale task. Both
  publish the same links.
\<close>

theorem SampleDeposition_normalize_deterministic_witness:
  "is_serial \<lparr>steps = [step_A, step_B]\<rparr>
   \<and> list_all (\<lambda>s. inputs \<lparr>inputs = [], outputs = [], \<dots> = name s\<rparr>
                        = inputs (to_task_plain s :: (int, unit) task)
                    \<and> outputs \<lparr>inputs = [], outputs = [], \<dots> = name s\<rparr>
                        = outputs (to_task_plain s :: (int, unit) task))
        [step_A, step_B]
   \<and> map inputs (tasks (workflow2 (snd (SampleDeposition_normalize (\<lambda>st. st) to_task_plain
         (\<lparr>steps = [step_A, step_B]\<rparr>, \<lparr>workflow2 = \<lparr>tasks = []\<rparr>\<rparr>)))))
     = [[], [\<lparr>link_name = ''A'', link_section = step_A\<rparr>]]
   \<and> map inputs (tasks (workflow2 (snd (SampleDeposition_normalize (\<lambda>st. st)
         (\<lambda>s. \<lparr>inputs = [], outputs = [], \<dots> = name s\<rparr>)
         (\<lparr>steps = [step_A, step_B]\<rparr>,
          \<lparr>workflow2 = \<lparr>tasks =
             [\<lparr>inputs = [\<lparr>link_name = ''old'', link_section = step_C\<rparr>], outputs = [],
               \<dots> = ''stale''\<rparr>]\<rparr>\<rparr>)))))
     = [[], [\<lparr>link_name = ''A'', link_section = step_A\<rparr>]]
   \<and> map outputs (tasks (workflow2 (snd (SampleDeposition_normalize (\<lambda>st. st)
         (\<lambda>s. \<lparr>inputs = [], outputs = [], \<dots> = name s\<rparr>)
         (\<lparr>steps = [step_A, step_B]\<rparr>,
          \<lparr>workflow2 = \<lparr>tasks =
             [\<lparr>inputs = [\<lparr>link_name = ''old'', link_section = step_C\<rparr>], outputs = [],
               \<dots> = ''stale''\<rparr>]\<rparr>\<rparr>)))))
     = map outputs (tasks (workflow2 (snd (SampleDeposition_normalize (\<lambda>st. st) to_task_plain
         (\<lparr>steps = [step_A, step_B]\<rparr>, \<lparr>workflow2 = \<lparr>tasks = []\<rparr>\<rparr>)))))"
  using SampleDeposition_normalize_deterministic
          [of "\<lambda>st. st" "(\<lparr>steps = [step_A, step_B]\<rparr>, \<lparr>workflow2 = \<lparr>tasks = []\<rparr>\<rparr>)"
              "\<lparr>steps = [step_A, step_B]\<rparr>" "\<lparr>workflow2 = \<lparr>tasks = []\<rparr>\<rparr>"
              "\<lambda>st. st"
              "(\<lparr>steps = [step_A, step_B]\<rparr>,
                \<lparr>workflow2 = \<lparr>tasks =
                   [\<lparr>inputs = [\<lparr>link_name = ''old'', link_section = step_C\<rparr>], outputs = [],
                     \<dots> = ''stale''\<rparr>]\<rparr>\<rparr>)"
              "\<lparr>steps = [step_A, step_B]\<rparr>"
              "\<lparr>workflow2 = \<lparr>tasks =
                   [\<lparr>inputs = [\<lparr>link_name = ''old'', link_section = step_C\<rparr>], outputs = [],
                     \<dots> = ''stale''\<rparr>]\<rparr>\<rparr>"
              "\<lambda>s. \<lparr>inputs = [], outputs = [], \<dots> = name s\<rparr>" to_task_plain]
  by (simp add: SampleDeposition_normalize_def is_serial_A_B to_task_plain_def)

end
